theory Spec2Isabelle
  imports Main
begin

section \<open>The booking service of the storage renting system\<close>

text \<open>
  A shallow embedding of \<^verbatim>\<open>server/api/services/booking.service.js\<close>: the class
  \<^verbatim>\<open>BookingService\<close> with its two entry points \<^verbatim>\<open>createBooking\<close> and
  \<^verbatim>\<open>verifyBooking\<close> and their helper methods.

  The service talks to three collaborators that are not part of the repository: the
  document store (collections \<^verbatim>\<open>bookings\<close> and \<^verbatim>\<open>storages\<close>), the payment gateway
  (\<^verbatim>\<open>razorpayInstance.orders.create\<close>) and the runtime (\<^verbatim>\<open>crypto\<close>, \<^verbatim>\<open>nanoid\<close>,
  \<^verbatim>\<open>new Date()\<close>). The two collections are part of the state that every method takes
  and returns; whatever the outside world answers (the clock, random tokens, the reply of
  the gateway, the keyed hash) is a field of an environment record, so that every theorem
  holds for all such answers.

  Arguments have the types of the method's documentation: ids, names and signatures are
  strings; \<^verbatim>\<open>boxes\<close>, \<^verbatim>\<open>amount\<close> and \<^verbatim>\<open>duration\<close> are numbers, taken here to be whole
  numbers (an amount with a fraction is not covered).
  Reads and writes of the store reach it and are carried out in the order they are issued.
  The calls of the logger \<^verbatim>\<open>l.error\<close> change nothing that is modelled.
\<close>

subsection \<open>Errors\<close>

text \<open>
  \<^verbatim>\<open>throw { status: 402, message: ... }\<close> is \<open>Thrown 402 ...\<close>; reading a property of
  \<^verbatim>\<open>undefined\<close> raises a JavaScript \<^verbatim>\<open>TypeError\<close>; a rejected promise of the gateway or
  of the store carries the collaborator's own reason.
\<close>

datatype error =
    Thrown (status: nat) (message: string)
  | TypeError
  | GatewayError string
  | StoreError string

subsection \<open>Values and documents\<close>

text \<open>
  The value of \<^verbatim>\<open>images[0]\<close> is a string, or \<^verbatim>\<open>undefined\<close> when the array is empty.
\<close>

datatype jsval = Undefined | Str string

text \<open>
  A JavaScript \<^verbatim>\<open>Date\<close> holds a time value in milliseconds since the epoch, or is
  invalid (its time value is \<^verbatim>\<open>NaN\<close>).
\<close>

datatype date = Date int | InvalidDate

text \<open>
  A storage document as \<^verbatim>\<open>addBookingToFirebase\<close> reads it: \<^verbatim>\<open>name\<close>, \<^verbatim>\<open>address\<close>,
  \<^verbatim>\<open>phone\<close>, and \<^verbatim>\<open>images\<close>, an array of strings, or \<open>None\<close> when the document has
  no such field (\<^verbatim>\<open>signupStorage\<close> writes none).
\<close>

record storage =
  name :: string
  address :: string
  phone :: string
  images :: "string list option"

text \<open>
  A booking document: the fields written by \<^verbatim>\<open>addBookingToFirebase\<close>, and \<^verbatim>\<open>paidAt\<close>,
  absent (\<open>None\<close>) until \<^verbatim>\<open>updateBookingPaymentStatus\<close> writes it. Numbers are integers.
\<close>

record booking =
  storageId :: string
  userId :: string
  userName :: string
  storageName :: string
  image' :: jsval
  boxes :: int
  amount :: int
  address :: string
  phone :: string
  storageType :: string
  orderId :: string
  fromDate :: date
  toDate :: date
  paid :: bool
  paidAt :: "date option"

text \<open>The argument of \<^verbatim>\<open>razorpayInstance.orders.create\<close> and the part of its answer that is used.\<close>

record orderParams =
  amount :: string
  currency :: string
  receipt :: string

record order =
  id' :: string

text \<open>
  A document snapshot: the reference it was read from (the document id), and the data,
  \<open>None\<close> when no such document exists (\<^verbatim>\<open>snapshot.data()\<close> is then \<^verbatim>\<open>undefined\<close>).
\<close>

record 'a snapshot =
  ref :: string
  data :: "'a option"

definition exists' :: "'a snapshot \<Rightarrow> bool" where
  "exists' snap = (data snap \<noteq> None)"

subsection \<open>Environment and state\<close>

text \<open>
  The environment: the secret \<^verbatim>\<open>razorpayKeySecret\<close> of \<^verbatim>\<open>common/constants\<close>, the
  function \<^verbatim>\<open>createHmac("sha256", key).update(msg).digest("hex")\<close> of the runtime, the
  setting \<^verbatim>\<open>ignoreUndefinedProperties\<close> of the store client that \<^verbatim>\<open>common/firebase\<close>
  configures (whether a field whose value is \<^verbatim>\<open>undefined\<close> is left out of a written
  document, or the write is refused), and what the outside world answers to the \<open>n\<close>-th
  request made to it: the reading of the clock, the token of \<^verbatim>\<open>nanoid()\<close>, the id the
  store generates for a new document, and the reply of the gateway (\<open>Inl\<close> a rejection
  with its reason, \<open>Inr\<close> the order). The field \<open>roundedToString\<close> is what the runtime
  prints for a number that is not a safe integer (see \<open>numberToString\<close> below).
\<close>

record env =
  razorpayKeySecret :: string
  hmacSha256Hex :: "string \<Rightarrow> string \<Rightarrow> string"
  ignoreUndefinedProperties :: bool
  clock :: "nat \<Rightarrow> int"
  nanoid :: "nat \<Rightarrow> string"
  autoId :: "nat \<Rightarrow> string"
  ordersCreate :: "nat \<Rightarrow> orderParams \<Rightarrow> string + order"
  roundedToString :: "int \<Rightarrow> string"

text \<open>
  The state: the two collections, the requests the gateway has received so far (oldest
  first), and the number of requests made to the outside world.
\<close>

record world =
  bookings :: "string \<rightharpoonup> booking"
  storages :: "string \<rightharpoonup> storage"
  gatewayRequests :: "orderParams list"
  effects :: nat

definition tick :: "world \<Rightarrow> world" where
  "tick w = w\<lparr>effects := Suc (effects w)\<rparr>"

subsection \<open>Runtime functions\<close>

text \<open>\<^verbatim>\<open>new Date()\<close>: the current reading of the clock.\<close>

definition newDate :: "env \<Rightarrow> world \<Rightarrow> date \<times> world" where
  "newDate e w = (Date (clock e (effects w)), tick w)"

text \<open>\<^verbatim>\<open>date.getTime()\<close>: the time value, \<open>None\<close> for \<^verbatim>\<open>NaN\<close>.\<close>

definition getTime :: "date \<Rightarrow> int option" where
  "getTime d = (case d of Date t \<Rightarrow> Some t | InvalidDate \<Rightarrow> None)"

text \<open>
  \<^verbatim>\<open>new Date(v)\<close> for a number \<open>v\<close>: a time value beyond 8.64e15 milliseconds from the
  epoch gives an invalid date.
\<close>

definition newDateOf :: "int option \<Rightarrow> date" where
  "newDateOf v = (case v of None \<Rightarrow> InvalidDate
     | Some t \<Rightarrow> if \<bar>t\<bar> > 8640000000000000 then InvalidDate else Date t)"

text \<open>\<^verbatim>\<open>a - b\<close> on two dates: the difference of the time values in milliseconds, or \<^verbatim>\<open>NaN\<close>.\<close>

definition dateDiff :: "date \<Rightarrow> date \<Rightarrow> int option" where
  "dateDiff a b = (case (getTime a, getTime b) of (Some x, Some y) \<Rightarrow> Some (x - y) | _ \<Rightarrow> None)"

text \<open>The decimal numeral of an integer: its digits, with a minus sign when negative.\<close>

definition digit :: "nat \<Rightarrow> char" where
  "digit n = ''0123456789'' ! n"

fun natToString :: "nat \<Rightarrow> string" where
  "natToString n = (if n < 10 then [digit n] else natToString (n div 10) @ [digit (n mod 10)])"

definition decimal :: "int \<Rightarrow> string" where
  "decimal v = (if v < 0 then ''-'' @ natToString (nat (- v)) else natToString (nat v))"

text \<open>
  \<^verbatim>\<open>Number.isSafeInteger\<close>: the integers of magnitude at most \<open>2\<^sup>5\<^sup>3 - 1\<close>, on which the
  arithmetic of JavaScript numbers (binary64) is exact.
\<close>

definition isSafeInteger :: "int \<Rightarrow> bool" where
  "isSafeInteger v = (\<bar>v\<bar> \<le> 9007199254740991)"

text \<open>
  \<^verbatim>\<open>(a * b).toString()\<close> for whole numbers \<open>a\<close> and \<open>b\<close>, given their exact product \<open>v\<close>.
  When \<open>v\<close> is a safe integer the product of the runtime is \<open>v\<close> itself and the string
  is its decimal numeral. Otherwise the runtime rounds the product to the nearest
  binary64 number and prints the shortest digits that identify it, in exponent form from
  \<open>10\<^sup>2\<^sup>1\<close> on: that string is the answer of the runtime, not computed here.
\<close>

definition numberToString :: "env \<Rightarrow> int \<Rightarrow> string" where
  "numberToString e v = (if isSafeInteger v then decimal v else roundedToString e v)"

text \<open>
  The integer that a decimal numeral denotes (used to state what a string sent to the
  gateway means).
\<close>

definition digitValue :: "char \<Rightarrow> nat" where
  "digitValue c = of_char c - 48"

definition natOfString :: "string \<Rightarrow> nat" where
  "natOfString s = foldl (\<lambda>acc c. 10 * acc + digitValue c) 0 s"

definition decimalValue :: "string \<Rightarrow> int" where
  "decimalValue s = (case s of
       [] \<Rightarrow> 0
     | c # cs \<Rightarrow> if c = CHR ''-'' then - int (natOfString cs) else int (natOfString s))"

text \<open>\<^verbatim>\<open>images[0]\<close>.\<close>

definition first :: "string list \<Rightarrow> jsval" where
  "first xs = (case xs of [] \<Rightarrow> Undefined | x # _ \<Rightarrow> Str x)"

subsection \<open>Payment verification\<close>

definition getBookingDocument :: "string \<Rightarrow> world \<Rightarrow> booking snapshot" where
  "getBookingDocument bookingId w = \<lparr>ref = bookingId, data = bookings w bookingId\<rparr>"

definition validateBooking :: "booking snapshot \<Rightarrow> error + unit" where
  "validateBooking snap = (if \<not> exists' snap then Inl (Thrown 402 ''Order not found, please try again'') else Inr ())"

definition getPaymentOrderId :: "string \<Rightarrow> string \<Rightarrow> string" where
  "getPaymentOrderId razorpayOrderId razorpayPaymentId = razorpayOrderId @ ''|'' @ razorpayPaymentId"

definition verifyPayment :: "env \<Rightarrow> booking snapshot \<Rightarrow> string \<Rightarrow> string \<Rightarrow> error + unit" where
  "verifyPayment e snap paymentOrderId razorpaySignature =
     (let expectedSignature = hmacSha256Hex e (razorpayKeySecret e) paymentOrderId
      in if expectedSignature \<noteq> razorpaySignature
         then Inl (Thrown 402 ''Payment verification failed'')
         else Inr ())"

text \<open>
  \<^verbatim>\<open>booking.ref.update({ paid: true, paidAt: new Date() })\<close>: the clock is read, and the
  two fields of the stored document are overwritten, the others kept. An update of a
  document that does not exist changes nothing. The write takes effect when it is issued.
\<close>

definition updateBookingPaymentStatus :: "env \<Rightarrow> booking snapshot \<Rightarrow> world \<Rightarrow> world" where
  "updateBookingPaymentStatus e snap w =
     (let (d, w1) = newDate e w
      in case bookings w1 (ref snap) of
           None \<Rightarrow> w1
         | Some b \<Rightarrow> w1\<lparr>bookings := (bookings w1)(ref snap \<mapsto> b\<lparr>paid := True, paidAt := Some d\<rparr>)\<rparr>)"

text \<open>
  \<^verbatim>\<open>verifyBooking\<close>. Its \<^verbatim>\<open>catch\<close> block logs the error and throws it again, so an error
  of a step is the error of the call. The promise of \<^verbatim>\<open>updateBookingPaymentStatus\<close> is
  not awaited: the call returns the message whatever becomes of the write.
\<close>

definition verifyBooking ::
  "env \<Rightarrow> string \<Rightarrow> string \<Rightarrow> string \<Rightarrow> string \<Rightarrow> world \<Rightarrow> (error + string) \<times> world" where
  "verifyBooking e razorpayPaymentId razorpayOrderId razorpaySignature bookingId w =
     (let snap = getBookingDocument bookingId w
      in case validateBooking snap of
           Inl err \<Rightarrow> (Inl err, w)
         | Inr _ \<Rightarrow>
             (let paymentOrderId = getPaymentOrderId razorpayOrderId razorpayPaymentId
              in case verifyPayment e snap paymentOrderId razorpaySignature of
                   Inl err \<Rightarrow> (Inl err, w)
                 | Inr _ \<Rightarrow> (Inr ''Payment successful'', updateBookingPaymentStatus e snap w)))"

subsection \<open>Booking creation\<close>

definition getStorageInfo :: "string \<Rightarrow> world \<Rightarrow> storage snapshot" where
  "getStorageInfo sid w = \<lparr>ref = sid, data = storages w sid\<rparr>"

text \<open>
  \<^verbatim>\<open>createRazorpayOrder\<close>: the argument object is built (which draws the receipt token),
  then sent to the gateway; a rejection is thrown to the caller.
\<close>

definition createRazorpayOrder :: "env \<Rightarrow> int \<Rightarrow> world \<Rightarrow> (error + order) \<times> world" where
  "createRazorpayOrder e amt w =
     (let params = \<lparr>orderParams.amount = numberToString e (amt * 100),
                    currency = ''INR'',
                    receipt = nanoid e (effects w)\<rparr>;
          w1 = tick w;
          reply = ordersCreate e (effects w1) params;
          w2 = (tick w1)\<lparr>gatewayRequests := gatewayRequests w1 @ [params]\<rparr>
      in case reply of
           Inl reason \<Rightarrow> (Inl (GatewayError reason), w2)
         | Inr ord \<Rightarrow> (Inr ord, w2))"

text \<open>
  \<^verbatim>\<open>bookingCollectionRef.add(doc)\<close>: a document with an \<^verbatim>\<open>undefined\<close> field is refused
  unless the client is set to ignore such fields (the field is then absent from the stored
  document, and reads as \<^verbatim>\<open>undefined\<close>). Otherwise the store generates an id and creates
  the document under it; it does not replace a document that already has this id. The
  store accepts every date.
\<close>

definition add :: "env \<Rightarrow> booking \<Rightarrow> world \<Rightarrow> (error + string) \<times> world" where
  "add e doc w =
     (if image' doc = Undefined \<and> \<not> ignoreUndefinedProperties e
      then (Inl (StoreError ''INVALID_ARGUMENT''), w)
      else
        (let newId = autoId e (effects w); w1 = tick w
         in if bookings w1 newId \<noteq> None
            then (Inl (StoreError ''ALREADY_EXISTS''), w1)
            else (Inr newId, w1\<lparr>bookings := (bookings w1)(newId \<mapsto> doc)\<rparr>)))"

text \<open>
  \<^verbatim>\<open>addBookingToFirebase\<close>. The fields of the document are evaluated in the order they
  are written: \<^verbatim>\<open>storage.data().name\<close> first, a \<^verbatim>\<open>TypeError\<close> when the storage document
  does not exist; then the clock is read once for \<^verbatim>\<open>fromDate\<close> and once more for
  \<^verbatim>\<open>toDate\<close>.
\<close>

definition addBookingToFirebase ::
  "env \<Rightarrow> string \<Rightarrow> string \<Rightarrow> string \<Rightarrow> storage snapshot \<Rightarrow> int \<Rightarrow> int \<Rightarrow> string \<Rightarrow> order \<Rightarrow> int
     \<Rightarrow> world \<Rightarrow> (error + string) \<times> world" where
  "addBookingToFirebase e uid sid uname snap bxs amt stype ord duration w =
     (case data snap of
        None \<Rightarrow> (Inl TypeError, w)
      | Some s \<Rightarrow>
          (let img = (case images s of Some xs \<Rightarrow> first xs | None \<Rightarrow> Str '''');
               (d1, w1) = newDate e w;
               (d2, w2) = newDate e w1;
               d3 = newDateOf (map_option (\<lambda>t. t + duration * 7 * 24 * 60 * 60 * 1000) (getTime d2))
           in add e \<lparr>storageId = sid,
                      userId = uid,
                      userName = uname,
                      storageName = name s,
                      image' = img,
                      boxes = bxs,
                      amount = amt,
                      address = storage.address s,
                      phone = storage.phone s,
                      storageType = stype,
                      orderId = id' ord,
                      fromDate = d1,
                      toDate = d3,
                      paid = False,
                      paidAt = None\<rparr> w2))"

text \<open>
  \<^verbatim>\<open>createBooking\<close> returns the pair \<^verbatim>\<open>{ orderId, bookingId }\<close>; its \<^verbatim>\<open>catch\<close> block
  logs and throws again.
\<close>

definition createBooking ::
  "env \<Rightarrow> string \<Rightarrow> string \<Rightarrow> int \<Rightarrow> int \<Rightarrow> string \<Rightarrow> int \<Rightarrow> string
     \<Rightarrow> world \<Rightarrow> (error + string \<times> string) \<times> world" where
  "createBooking e uid sid bxs amt stype duration uname w =
     (let snap = getStorageInfo sid w
      in case createRazorpayOrder e amt w of
           (Inl err, w1) \<Rightarrow> (Inl err, w1)
         | (Inr ord, w1) \<Rightarrow>
             (case addBookingToFirebase e uid sid uname snap bxs amt stype ord duration w1 of
                (Inl err, w2) \<Rightarrow> (Inl err, w2)
              | (Inr newId, w2) \<Rightarrow> (Inr (id' ord, newId), w2)))"

subsection \<open>Sequences of calls\<close>

datatype call =
    CreateBooking string string int int string int string
  | VerifyBooking string string string string

fun exec :: "env \<Rightarrow> call \<Rightarrow> world \<Rightarrow> world" where
  "exec e (CreateBooking uid sid bxs amt stype duration uname) w =
     snd (createBooking e uid sid bxs amt stype duration uname w)"
| "exec e (VerifyBooking pid oid sig bid) w = snd (verifyBooking e pid oid sig bid w)"

fun run :: "env \<Rightarrow> call list \<Rightarrow> world \<Rightarrow> world" where
  "run e [] w = w"
| "run e (c # cs) w = run e cs (exec e c w)"

text \<open>
  The signature that belongs to a payment: the hex HMAC-SHA256 digest, under the secret
  key, of the order id, a vertical bar and the payment id.
\<close>

definition validSignature :: "env \<Rightarrow> string \<Rightarrow> string \<Rightarrow> string \<Rightarrow> bool" where
  "validSignature e razorpayPaymentId razorpayOrderId razorpaySignature =
     (hmacSha256Hex e (razorpayKeySecret e) (razorpayOrderId @ ''|'' @ razorpayPaymentId) = razorpaySignature)"

subsection \<open>A concrete environment and concrete states\<close>

text \<open>
  Concrete inputs on which the theorems below are exercised. In \<open>env0\<close> the clock advances
  by one millisecond from one reading to the next and the gateway accepts every order;
  its keyed hash is a stand-in that joins key and message (the theorems hold for every
  such function, the one of the runtime included). In \<open>env1\<close> the gateway rejects every
  order. In \<open>env2\<close> the store client ignores \<^verbatim>\<open>undefined\<close> fields.
\<close>

definition env0 :: env where
  "env0 = \<lparr>razorpayKeySecret = ''s3cr3t'',
            hmacSha256Hex = (\<lambda>key msg. key @ ''#'' @ msg),
            ignoreUndefinedProperties = False,
            clock = (\<lambda>n. 1700000000000 + int n),
            nanoid = (\<lambda>n. ''tok'' @ natToString n),
            autoId = (\<lambda>n. ''bk'' @ natToString n),
            ordersCreate = (\<lambda>n p. Inr \<lparr>id' = ''order_abc''\<rparr>),
            roundedToString = (\<lambda>v. ''1e+21'')\<rparr>"

definition env1 :: env where
  "env1 = env0\<lparr>ordersCreate := (\<lambda>n p. Inl ''BAD_REQUEST_ERROR'')\<rparr>"

definition env2 :: env where
  "env2 = env0\<lparr>ignoreUndefinedProperties := True\<rparr>"

definition depot :: storage where
  "depot = \<lparr>name = ''Depot'', address = ''12 Main St'', phone = ''5550100'',
             images = Some [''a.png'', ''b.png'']\<rparr>"

definition shed :: storage where
  "shed = \<lparr>name = ''Shed'', address = ''3 Mill Rd'', phone = ''5550199'', images = None\<rparr>"

definition yard :: storage where
  "yard = \<lparr>name = ''Yard'', address = ''7 Quay Ln'', phone = ''5550142'', images = Some []\<rparr>"

definition pending :: booking where
  "pending = \<lparr>storageId = ''s1'', userId = ''u1'', userName = ''Ann'', storageName = ''Depot'',
               image' = Str ''a.png'', boxes = 2, amount = 5000, address = ''12 Main St'',
               phone = ''5550100'', storageType = ''box'', orderId = ''order_abc'',
               fromDate = Date 1700000000000, toDate = Date 1702419200000,
               paid = False, paidAt = None\<rparr>"

definition world0 :: world where
  "world0 = \<lparr>bookings = Map.empty,
              storages = [''s1'' \<mapsto> depot, ''s2'' \<mapsto> shed, ''s3'' \<mapsto> yard],
              gatewayRequests = [],
              effects = 0\<rparr>"

definition world1 :: world where
  "world1 = world0\<lparr>bookings := [''b1'' \<mapsto> pending]\<rparr>"

section \<open>Properties\<close>

subsection \<open>What the two entry points compute\<close>

lemmas verify_defs = verifyBooking_def getBookingDocument_def validateBooking_def exists'_def
  getPaymentOrderId_def verifyPayment_def updateBookingPaymentStatus_def newDate_def tick_def

lemmas create_defs = createBooking_def getStorageInfo_def createRazorpayOrder_def
  addBookingToFirebase_def add_def newDate_def tick_def getTime_def

lemmas example_defs = env0_def env1_def env2_def world0_def world1_def depot_def shed_def
  yard_def pending_def

lemma verifyBooking_absent:
  "bookings w bid = None \<Longrightarrow>
   verifyBooking e pid oid sig bid w = (Inl (Thrown 402 ''Order not found, please try again''), w)"
  by (simp add: verify_defs)

lemma verifyBooking_mismatch:
  "bookings w bid = Some b \<Longrightarrow> \<not> validSignature e pid oid sig \<Longrightarrow>
   verifyBooking e pid oid sig bid w = (Inl (Thrown 402 ''Payment verification failed''), w)"
  by (simp add: verify_defs validSignature_def Let_def)

lemma verifyBooking_match:
  "bookings w bid = Some b \<Longrightarrow> validSignature e pid oid sig \<Longrightarrow>
   verifyBooking e pid oid sig bid w =
     (Inr ''Payment successful'',
      w\<lparr>effects := Suc (effects w),
        bookings := (bookings w)(bid \<mapsto> b\<lparr>paid := True, paidAt := Some (Date (clock e (effects w)))\<rparr>)\<rparr>)"
  by (simp add: verify_defs validSignature_def Let_def)

text \<open>
  A successful \<^verbatim>\<open>createBooking\<close>: the storage document exists, the gateway accepted the
  order, the store accepted the document, the generated id was free, and exactly the new
  document was added. The clock
  readings are the third and the fourth answer of the outside world during the call (after
  the receipt token and the reply of the gateway).
\<close>

lemma createBooking_success:
  "createBooking e uid sid bxs amt stype duration uname w = (Inr (oid, newId), w') \<Longrightarrow>
   \<exists>s ord. storages w sid = Some s \<and>
     ordersCreate e (Suc (effects w))
       \<lparr>orderParams.amount = numberToString e (amt * 100), currency = ''INR'',
        receipt = nanoid e (effects w)\<rparr> = Inr ord \<and>
     oid = id' ord \<and> newId = autoId e (effects w + 4) \<and> bookings w newId = None \<and>
     bookings w' = (bookings w)(newId \<mapsto>
        \<lparr>storageId = sid,
         userId = uid,
         userName = uname,
         storageName = name s,
         image' = (case images s of Some xs \<Rightarrow> first xs | None \<Rightarrow> Str []),
         boxes = bxs,
         amount = amt,
         address = storage.address s,
         phone = storage.phone s,
         storageType = stype,
         orderId = id' ord,
         fromDate = Date (clock e (effects w + 2)),
         toDate = newDateOf (Some (clock e (effects w + 3) + duration * 7 * 24 * 60 * 60 * 1000)),
         paid = False,
         paidAt = None\<rparr>)"
  by (auto simp add: create_defs Let_def eval_nat_numeral
        split: sum.splits prod.splits option.splits if_splits)

lemma createBooking_failure:
  "createBooking e uid sid bxs amt stype duration uname w = (Inl err, w') \<Longrightarrow>
   bookings w' = bookings w"
  by (auto simp add: create_defs Let_def split: sum.splits prod.splits option.splits if_splits)

subsection \<open>Signature verification\<close>

text \<open>
  Claim C1. \<^verbatim>\<open>verifyBooking\<close> succeeds only if the hex HMAC-SHA256 digest of
  \<^verbatim>\<open>orderId + "|" + paymentId\<close> under the secret key equals the supplied signature; for an
  existing booking it succeeds whenever the two are equal, and for every other signature
  it fails with the object \<^verbatim>\<open>{ status: 402, message: "Payment verification failed" }\<close>.
\<close>

theorem verifyBooking_succeeds_iff_signature_matches:
  "(fst (verifyBooking e pid oid sig bid w) = Inr m \<longrightarrow>
      hmacSha256Hex e (razorpayKeySecret e) (oid @ ''|'' @ pid) = sig) \<and>
   (bookings w bid \<noteq> None \<longrightarrow> hmacSha256Hex e (razorpayKeySecret e) (oid @ ''|'' @ pid) = sig \<longrightarrow>
      fst (verifyBooking e pid oid sig bid w) = Inr ''Payment successful'') \<and>
   (bookings w bid \<noteq> None \<longrightarrow> hmacSha256Hex e (razorpayKeySecret e) (oid @ ''|'' @ pid) \<noteq> sig \<longrightarrow>
      fst (verifyBooking e pid oid sig bid w) = Inl (Thrown 402 ''Payment verification failed''))"
  by (auto simp add: verify_defs Let_def split: if_splits)

theorem verifyBooking_succeeds_iff_signature_matches_witness:
  "bookings world1 ''b1'' \<noteq> None \<and>
   hmacSha256Hex env0 (razorpayKeySecret env0) (''order_abc'' @ ''|'' @ ''pay_123'')
     = ''s3cr3t#order_abc|pay_123'' \<and>
   fst (verifyBooking env0 ''pay_123'' ''order_abc'' ''s3cr3t#order_abc|pay_123'' ''b1'' world1)
     = Inr ''Payment successful'' \<and>
   hmacSha256Hex env0 (razorpayKeySecret env0) (''order_abc'' @ ''|'' @ ''pay_123'') \<noteq> ''deadbeef'' \<and>
   fst (verifyBooking env0 ''pay_123'' ''order_abc'' ''deadbeef'' ''b1'' world1)
     = Inl (Thrown 402 ''Payment verification failed'')"
  using verifyBooking_succeeds_iff_signature_matches
          [of env0 "''pay_123''" "''order_abc''" "''s3cr3t#order_abc|pay_123''" "''b1''" world1
              "''Payment successful''"]
        verifyBooking_succeeds_iff_signature_matches
          [of env0 "''pay_123''" "''order_abc''" "''deadbeef''" "''b1''" world1]
  by (simp add: example_defs)

text \<open>
  Claim C3. The order id stored on the booking plays no part in the verification: for an
  existing booking and any payment id, order id and signature that match each other, the
  call succeeds and the stored booking becomes paid, whatever its own \<^verbatim>\<open>orderId\<close> is.
\<close>

theorem verifyBooking_ignores_stored_orderId:
  "bookings w bid = Some b \<Longrightarrow> validSignature e pid oid sig \<Longrightarrow>
   fst (verifyBooking e pid oid sig bid w) = Inr ''Payment successful'' \<and>
   bookings (snd (verifyBooking e pid oid sig bid w)) bid
     = Some (b\<lparr>paid := True, paidAt := Some (Date (clock e (effects w)))\<rparr>)"
  by (simp add: verifyBooking_match)

theorem verifyBooking_ignores_stored_orderId_witness:
  "bookings world1 ''b1'' = Some pending \<and> orderId pending \<noteq> ''order_xyz'' \<and>
   validSignature env0 ''pay_123'' ''order_xyz'' ''s3cr3t#order_xyz|pay_123'' \<and>
   fst (verifyBooking env0 ''pay_123'' ''order_xyz'' ''s3cr3t#order_xyz|pay_123'' ''b1'' world1)
     = Inr ''Payment successful'' \<and>
   bookings (snd (verifyBooking env0 ''pay_123'' ''order_xyz'' ''s3cr3t#order_xyz|pay_123'' ''b1'' world1)) ''b1''
     = Some (pending\<lparr>paid := True, paidAt := Some (Date 1700000000000)\<rparr>)"
  using verifyBooking_ignores_stored_orderId
          [of world1 "''b1''" pending env0 "''pay_123''" "''order_xyz''" "''s3cr3t#order_xyz|pay_123''"]
  by (simp add: example_defs validSignature_def)

text \<open>
  Claim C4. When no booking has the given id, \<^verbatim>\<open>verifyBooking\<close> fails with the object
  \<^verbatim>\<open>{ status: 402, message: "Order not found, please try again" }\<close> and changes nothing,
  whatever payment id, order id and signature are supplied, a matching signature included.
\<close>

theorem verifyBooking_missing_booking_not_found:
  "bookings w bid = None \<Longrightarrow>
   verifyBooking e pid oid sig bid w = (Inl (Thrown 402 ''Order not found, please try again''), w)"
  by (simp add: verify_defs)

theorem verifyBooking_missing_booking_not_found_witness:
  "bookings world1 ''b2'' = None \<and>
   validSignature env0 ''pay_123'' ''order_abc'' ''s3cr3t#order_abc|pay_123'' \<and>
   verifyBooking env0 ''pay_123'' ''order_abc'' ''s3cr3t#order_abc|pay_123'' ''b2'' world1 =
     (Inl (Thrown 402 ''Order not found, please try again''), world1)"
  using verifyBooking_missing_booking_not_found
          [of world1 "''b2''" env0 "''pay_123''" "''order_abc''" "''s3cr3t#order_abc|pay_123''"]
  by (simp add: example_defs validSignature_def)

subsection \<open>Booking creation\<close>

text \<open>
  Claim C5. When the order-creation call to the gateway fails, \<^verbatim>\<open>createBooking\<close> fails
  with that same error and the collection of bookings is unchanged.
\<close>

theorem createBooking_gateway_failure_persists_nothing:
  "fst (createRazorpayOrder e amt w) = Inl err \<Longrightarrow>
   fst (createBooking e uid sid bxs amt stype duration uname w) = Inl err \<and>
   bookings (snd (createBooking e uid sid bxs amt stype duration uname w)) = bookings w"
  by (auto simp add: create_defs Let_def split: sum.splits prod.splits)

theorem createBooking_gateway_failure_persists_nothing_witness:
  "fst (createRazorpayOrder env1 5000 world0) = Inl (GatewayError ''BAD_REQUEST_ERROR'') \<and>
   fst (createBooking env1 ''u1'' ''s1'' 2 5000 ''box'' 4 ''Ann'' world0)
     = Inl (GatewayError ''BAD_REQUEST_ERROR'') \<and>
   bookings (snd (createBooking env1 ''u1'' ''s1'' 2 5000 ''box'' 4 ''Ann'' world0)) = bookings world0"
proof -
  have h: "fst (createRazorpayOrder env1 5000 world0) = Inl (GatewayError ''BAD_REQUEST_ERROR'')"
    by (simp add: createRazorpayOrder_def example_defs Let_def)
  show ?thesis
    using h createBooking_gateway_failure_persists_nothing
              [OF h, of "''u1''" "''s1''" 2 "''box''" 4 "''Ann''"]
    by simp
qed

subsection \<open>The paid flag\<close>

text \<open>
  One call, from any state: a booking that is paid afterwards was paid before, or the call
  was a \<^verbatim>\<open>verifyBooking\<close> for this very booking that carried a matching signature and
  succeeded.
\<close>

lemma exec_paid_origin:
  assumes "bookings (exec e c w) bid = Some b'" and "paid b'"
  shows "(\<exists>b. bookings w bid = Some b \<and> paid b) \<or>
         (\<exists>pid oid sig b. c = VerifyBooking pid oid sig bid \<and> validSignature e pid oid sig \<and>
            bookings w bid = Some b \<and>
            fst (verifyBooking e pid oid sig bid w) = Inr ''Payment successful'')"
proof (cases c)
  case (CreateBooking uid sid bxs amt stype duration uname)
  obtain r w' where rw: "createBooking e uid sid bxs amt stype duration uname w = (r, w')"
    by (cases "createBooking e uid sid bxs amt stype duration uname w")
  have ex: "exec e c w = w'" using CreateBooking rw by simp
  show ?thesis
  proof (cases r)
    case (Inl err)
    then have "bookings w' = bookings w" using rw createBooking_failure by blast
    then show ?thesis using assms ex by auto
  next
    case (Inr p)
    obtain oid newId where p: "p = (oid, newId)" by (cases p)
    from createBooking_success [OF rw [unfolded Inr p]]
    show ?thesis using assms ex by (auto split: if_splits)
  qed
next
  case (VerifyBooking pid oid sig bid0)
  show ?thesis
  proof (cases "bookings w bid0")
    case None
    then show ?thesis using assms VerifyBooking by (simp add: verifyBooking_absent)
  next
    case (Some b0)
    show ?thesis
    proof (cases "validSignature e pid oid sig")
      case False
      then show ?thesis using assms VerifyBooking Some by (simp add: verifyBooking_mismatch)
    next
      case True
      then show ?thesis using assms VerifyBooking Some
        by (cases "bid = bid0") (auto simp add: verifyBooking_match)
    qed
  qed
qed

text \<open>
  Any sequence of calls: a booking that is paid at the end was paid at the start, or the
  sequence holds a \<^verbatim>\<open>verifyBooking\<close> for it with a matching signature.
\<close>

lemma run_paid_origin:
  "bookings (run e cs w) bid = Some b' \<Longrightarrow> paid b' \<Longrightarrow>
   (\<exists>b. bookings w bid = Some b \<and> paid b) \<or>
   (\<exists>pid oid sig. VerifyBooking pid oid sig bid \<in> set cs \<and> validSignature e pid oid sig)"
proof (induction cs arbitrary: w)
  case Nil
  then show ?case by simp
next
  case (Cons c cs)
  from Cons.IH [of "exec e c w"] Cons.prems
  consider b where "bookings (exec e c w) bid = Some b" "paid b"
    | pid oid sig where "VerifyBooking pid oid sig bid \<in> set cs" "validSignature e pid oid sig"
    by auto
  then show ?case
  proof cases
    case 1
    from exec_paid_origin [OF 1] show ?thesis by auto
  next
    case 2
    then show ?thesis by auto
  qed
qed

text \<open>
  Claim C2. In every state (the reachable ones among them) and for every call of the flow:
  a booking that the call creates is unpaid; and a booking that is unpaid before the call
  and paid after it was the target of a \<^verbatim>\<open>verifyBooking\<close> whose signature matched and which
  succeeded. So neither creation nor a failed verification sets \<^verbatim>\<open>paid\<close> to true.
\<close>

theorem paid_only_after_verified_payment:
  "(bookings w bid = None \<longrightarrow> bookings (exec e c w) bid = Some b' \<longrightarrow> \<not> paid b') \<and>
   (bookings w bid = Some b \<longrightarrow> \<not> paid b \<longrightarrow> bookings (exec e c w) bid = Some b' \<longrightarrow> paid b' \<longrightarrow>
      (\<exists>pid oid sig. c = VerifyBooking pid oid sig bid \<and> validSignature e pid oid sig \<and>
         fst (verifyBooking e pid oid sig bid w) = Inr ''Payment successful''))"
  using exec_paid_origin [of e c w bid b'] by auto

theorem paid_only_after_verified_payment_witness:
  "bookings world0 ''bk4'' = None \<and>
   (\<exists>b'. bookings (exec env0 (CreateBooking ''u1'' ''s1'' 2 5000 ''box'' 4 ''Ann'') world0) ''bk4'' = Some b'
         \<and> \<not> paid b') \<and>
   bookings world1 ''b1'' = Some pending \<and> \<not> paid pending \<and>
   bookings (exec env0 (VerifyBooking ''pay_123'' ''order_abc'' ''s3cr3t#order_abc|pay_123'' ''b1'') world1) ''b1''
     = Some (pending\<lparr>paid := True, paidAt := Some (Date 1700000000000)\<rparr>) \<and>
   paid (pending\<lparr>paid := True, paidAt := Some (Date 1700000000000)\<rparr>) \<and>
   (\<exists>pid oid sig.
      VerifyBooking ''pay_123'' ''order_abc'' ''s3cr3t#order_abc|pay_123'' ''b1'' = VerifyBooking pid oid sig ''b1'' \<and>
      validSignature env0 pid oid sig \<and>
      fst (verifyBooking env0 pid oid sig ''b1'' world1) = Inr ''Payment successful'')"
proof -
  let ?c1 = "CreateBooking ''u1'' ''s1'' 2 5000 ''box'' 4 ''Ann''"
  let ?c2 = "VerifyBooking ''pay_123'' ''order_abc'' ''s3cr3t#order_abc|pay_123'' ''b1''"
  let ?b2 = "pending\<lparr>paid := True, paidAt := Some (Date 1700000000000)\<rparr>"
  have n: "bookings world0 ''bk4'' = None"
    by (simp add: example_defs)
  obtain b1 where c: "bookings (exec env0 ?c1 world0) ''bk4'' = Some b1"
    by (simp add: create_defs example_defs Let_def numberToString_def isSafeInteger_def decimal_def
          digit_def newDateOf_def first_def)
  have p: "bookings world1 ''b1'' = Some pending"
    by (simp add: example_defs)
  have q: "\<not> paid pending"
    by (simp add: example_defs)
  have r: "bookings (exec env0 ?c2 world1) ''b1'' = Some ?b2"
    by (simp add: verify_defs example_defs Let_def)
  have s: "paid ?b2"
    by simp
  from paid_only_after_verified_payment [where w = world0 and bid = "''bk4''" and e = env0 and c = ?c1 and b' = b1]
    n c
  have u: "\<not> paid b1" by simp
  from paid_only_after_verified_payment
         [where w = world1 and bid = "''b1''" and e = env0 and c = ?c2 and b = pending and b' = ?b2]
    p q r s
  have v: "\<exists>pid oid sig. ?c2 = VerifyBooking pid oid sig ''b1'' \<and> validSignature env0 pid oid sig \<and>
             fst (verifyBooking env0 pid oid sig ''b1'' world1) = Inr ''Payment successful''"
    by simp
  show ?thesis using n c u p q r s v by blast
qed

text \<open>
  Claim C9. Two calls of \<^verbatim>\<open>verifyBooking\<close> in sequence on the same existing booking, each
  with a matching signature: both succeed, the booking is paid after the first and after
  the second, and the second changes no field of the booking other than \<^verbatim>\<open>paidAt\<close>, no
  other booking, no storage document and no gateway request.
\<close>

theorem verifyBooking_twice:
  "bookings w bid = Some b \<Longrightarrow> validSignature e pid oid sig \<Longrightarrow> validSignature e pid2 oid2 sig2 \<Longrightarrow>
   (let (r1, w1) = verifyBooking e pid oid sig bid w;
        (r2, w2) = verifyBooking e pid2 oid2 sig2 bid w1
    in r1 = Inr ''Payment successful'' \<and> r2 = Inr ''Payment successful'' \<and>
       (\<exists>b1 b2. bookings w1 bid = Some b1 \<and> paid b1 \<and>
                bookings w2 bid = Some b2 \<and> paid b2 \<and>
                b2 = b1\<lparr>paidAt := paidAt b2\<rparr>) \<and>
       (\<forall>k. k \<noteq> bid \<longrightarrow> bookings w2 k = bookings w1 k) \<and>
       storages w2 = storages w1 \<and> gatewayRequests w2 = gatewayRequests w1)"
  by (simp add: verifyBooking_match)

theorem verifyBooking_twice_witness:
  "bookings world1 ''b1'' = Some pending \<and>
   validSignature env0 ''pay_123'' ''order_abc'' ''s3cr3t#order_abc|pay_123'' \<and>
   (let (r1, w1) = verifyBooking env0 ''pay_123'' ''order_abc'' ''s3cr3t#order_abc|pay_123'' ''b1'' world1;
        (r2, w2) = verifyBooking env0 ''pay_123'' ''order_abc'' ''s3cr3t#order_abc|pay_123'' ''b1'' w1
    in r1 = Inr ''Payment successful'' \<and> r2 = Inr ''Payment successful'' \<and>
       (\<exists>b1 b2. bookings w1 ''b1'' = Some b1 \<and> paid b1 \<and>
                bookings w2 ''b1'' = Some b2 \<and> paid b2 \<and>
                b2 = b1\<lparr>paidAt := paidAt b2\<rparr>) \<and>
       (\<forall>k. k \<noteq> ''b1'' \<longrightarrow> bookings w2 k = bookings w1 k) \<and>
       storages w2 = storages w1 \<and> gatewayRequests w2 = gatewayRequests w1)"
proof -
  have b: "bookings world1 ''b1'' = Some pending"
    by (simp add: example_defs)
  have v: "validSignature env0 ''pay_123'' ''order_abc'' ''s3cr3t#order_abc|pay_123''"
    by (simp add: validSignature_def example_defs)
  show ?thesis using b v verifyBooking_twice [OF b v v] by simp
qed

subsection \<open>The order sent to the gateway\<close>

lemmas eval_defs = create_defs example_defs Let_def numberToString_def isSafeInteger_def
  decimal_def digit_def newDateOf_def first_def dateDiff_def

text \<open>
  The decimal numeral of an integer denotes that integer, so two integers with the same
  numeral are equal.
\<close>

lemma digits_below_ten:
  "\<forall>k<10. digitValue (digit k) = k \<and> digit k \<noteq> CHR ''-''"
  unfolding digit_def digitValue_def
  by (simp add: eval_nat_numeral All_less_Suc)

lemma digitValue_digit: "n < 10 \<Longrightarrow> digitValue (digit n) = n"
  using digits_below_ten by blast

lemma digit_not_minus: "n < 10 \<Longrightarrow> digit n \<noteq> CHR ''-''"
  using digits_below_ten by blast

lemma natOfString_snoc: "natOfString (s @ [c]) = 10 * natOfString s + digitValue c"
  by (simp add: natOfString_def)

lemma natOfString_natToString: "natOfString (natToString n) = n"
proof (induction n rule: natToString.induct)
  case (1 n)
  show ?case
  proof (cases "n < 10")
    case True
    then have "natToString n = [digit n]"
      by (subst natToString.simps) simp
    with True show ?thesis
      by (simp del: natToString.simps add: natOfString_def digitValue_digit)
  next
    case False
    then have ih: "natOfString (natToString (n div 10)) = n div 10"
      using "1" by blast
    from False have "natToString n = natToString (n div 10) @ [digit (n mod 10)]"
      by (subst natToString.simps) simp
    with ih show ?thesis
      by (simp del: natToString.simps add: natOfString_snoc digitValue_digit)
  qed
qed

lemma natToString_head: "natToString n \<noteq> [] \<and> hd (natToString n) \<noteq> CHR ''-''"
proof (induction n rule: natToString.induct)
  case (1 n)
  show ?case
  proof (cases "n < 10")
    case True
    then have "natToString n = [digit n]"
      by (subst natToString.simps) simp
    with True show ?thesis
      by (simp del: natToString.simps add: digit_not_minus)
  next
    case False
    then have ih: "natToString (n div 10) \<noteq> [] \<and> hd (natToString (n div 10)) \<noteq> CHR ''-''"
      using "1" by blast
    from False have "natToString n = natToString (n div 10) @ [digit (n mod 10)]"
      by (subst natToString.simps) simp
    with ih show ?thesis
      by (simp del: natToString.simps)
  qed
qed

lemma decimalValue_decimal: "decimalValue (decimal v) = v"
proof (cases "v < 0")
  case True
  then show ?thesis
    by (simp del: natToString.simps add: decimal_def decimalValue_def natOfString_natToString)
next
  case False
  obtain c cs where s: "natToString (nat v) = c # cs"
    using natToString_head [of "nat v"] by (cases "natToString (nat v)") blast+
  then have "c \<noteq> CHR ''-''"
    using natToString_head [of "nat v"] by (simp del: natToString.simps)
  moreover have "natOfString (c # cs) = nat v"
    using natOfString_natToString [of "nat v"] s by (simp del: natToString.simps)
  ultimately show ?thesis
    using False s by (simp del: natToString.simps add: decimal_def decimalValue_def)
qed

text \<open>Every call sends the gateway exactly one order request, built from the amount alone.\<close>

lemma createBooking_requests:
  "gatewayRequests (snd (createBooking e uid sid bxs amt stype duration uname w)) =
   gatewayRequests w @
     [\<lparr>orderParams.amount = numberToString e (amt * 100), currency = ''INR'',
       receipt = nanoid e (effects w)\<rparr>]"
  by (auto simp add: create_defs Let_def split: sum.splits prod.splits option.splits)

text \<open>
  Claim C6, as stated, at a concrete input. The caller supplies the amount 5000; the order
  amount that the gateway receives is the string \<^verbatim>\<open>"500000"\<close>, which denotes 500000 and
  not the caller-supplied 5000.
\<close>

theorem createBooking_gateway_amount_counterexample:
  "gatewayRequests (snd (createBooking env0 ''u1'' ''s1'' 2 5000 ''box'' 4 ''Ann'' world0))
     = [\<lparr>orderParams.amount = ''500000'', currency = ''INR'', receipt = ''tok0''\<rparr>] \<and>
   decimalValue ''500000'' \<noteq> 5000 \<and> ''500000'' \<noteq> decimal 5000"
  by (simp add: eval_defs decimalValue_def natOfString_def digitValue_def)

text \<open>
  Claim C6, amended. For a whole amount whose product with 100 is a safe integer, every
  call of \<^verbatim>\<open>createBooking\<close> sends the gateway exactly one order request; its amount is
  the decimal numeral of the caller-supplied amount multiplied by 100 (the amount is taken
  in major currency units and converted to minor units), its currency is \<^verbatim>\<open>"INR"\<close>, its
  receipt a fresh token. That amount is the only one sent: no other argument of the call
  enters the request.
\<close>

theorem createBooking_gateway_request:
  "isSafeInteger (amt * 100) \<Longrightarrow>
   gatewayRequests (snd (createBooking e uid sid bxs amt stype duration uname w)) =
     gatewayRequests w @
       [\<lparr>orderParams.amount = decimal (amt * 100), currency = ''INR'',
         receipt = nanoid e (effects w)\<rparr>] \<and>
   decimalValue (decimal (amt * 100)) = amt * 100"
  by (simp add: createBooking_requests numberToString_def decimalValue_decimal)

theorem createBooking_gateway_request_witness:
  "isSafeInteger (5000 * 100) \<and>
   gatewayRequests (snd (createBooking env0 ''u1'' ''s1'' 2 5000 ''box'' 4 ''Ann'' world0))
     = gatewayRequests world0 @
         [\<lparr>orderParams.amount = ''500000'', currency = ''INR'', receipt = ''tok0''\<rparr>] \<and>
   decimalValue ''500000'' = 5000 * 100 \<and>
   isSafeInteger (- 12 * 100) \<and>
   gatewayRequests (snd (createBooking env1 ''u2'' ''s2'' 7 (- 12) ''shelf'' 1 ''Bob'' world1))
     = gatewayRequests world1 @
         [\<lparr>orderParams.amount = ''-1200'', currency = ''INR'', receipt = ''tok0''\<rparr>] \<and>
   decimalValue ''-1200'' = - 12 * 100"
proof -
  have s1: "isSafeInteger (5000 * 100)"
    by (simp add: isSafeInteger_def)
  have s2: "isSafeInteger (- 12 * 100)"
    by (simp add: isSafeInteger_def)
  have d1: "decimal (5000 * 100) = ''500000''"
    by (simp add: decimal_def digit_def)
  have d2: "decimal (- 12 * 100) = ''-1200''"
    by (simp add: decimal_def digit_def)
  have t: "nanoid env0 (effects world0) = ''tok0''" "nanoid env1 (effects world1) = ''tok0''"
    by (simp_all add: example_defs digit_def)
  show ?thesis
    using s1 s2 d1 d2 t
      createBooking_gateway_request
        [OF s1, of env0 "''u1''" "''s1''" 2 "''box''" 4 "''Ann''" world0]
      createBooking_gateway_request
        [OF s2, of env1 "''u2''" "''s2''" 7 "''shelf''" 1 "''Bob''" world1]
    by simp
qed

subsection \<open>The persisted booking\<close>

text \<open>
  The booking that a successful \<^verbatim>\<open>createBooking\<close> persists is unpaid; \<^verbatim>\<open>fromDate\<close> is the
  first reading of the clock, \<^verbatim>\<open>toDate\<close> the second reading plus \<open>duration\<close> weeks.
\<close>

lemma createBooking_dates:
  assumes "fst (createBooking e uid sid bxs amt stype duration uname w) = Inr (oid, newId)"
  shows "\<exists>b. bookings (snd (createBooking e uid sid bxs amt stype duration uname w)) newId = Some b \<and>
           \<not> paid b \<and> fromDate b = Date (clock e (effects w + 2)) \<and>
           toDate b = newDateOf (Some (clock e (effects w + 3) + duration * 7 * 24 * 60 * 60 * 1000))"
proof -
  have "createBooking e uid sid bxs amt stype duration uname w =
          (Inr (oid, newId), snd (createBooking e uid sid bxs amt stype duration uname w))"
    using assms by (simp add: prod_eq_iff)
  from createBooking_success [OF this] show ?thesis by auto
qed

text \<open>
  While \<^verbatim>\<open>toDate\<close> is a valid date, the span of the booking is \<open>duration\<close> weeks plus
  the time that passed between the two readings of the clock: exactly \<open>duration\<close> weeks
  when the two readings agree.
\<close>

lemma createBooking_span:
  assumes "fst (createBooking e uid sid bxs amt stype duration uname w) = Inr (oid, newId)"
    and "\<bar>clock e (effects w + 3) + duration * 7 * 24 * 60 * 60 * 1000\<bar> \<le> 8640000000000000"
  shows "\<exists>b. bookings (snd (createBooking e uid sid bxs amt stype duration uname w)) newId = Some b \<and>
           dateDiff (toDate b) (fromDate b) =
             Some (duration * 7 * 24 * 60 * 60 * 1000 +
                   (clock e (effects w + 3) - clock e (effects w + 2)))"
  using createBooking_dates [OF assms(1)] assms(2)
  by (auto simp add: dateDiff_def getTime_def newDateOf_def)

text \<open>
  Claim C7, at a concrete input. Amount 5000, duration 4 weeks, the storage exists, the
  gateway accepts, and the clock advances by one millisecond between the two readings
  taken for \<^verbatim>\<open>fromDate\<close> and \<^verbatim>\<open>toDate\<close>: the persisted booking is unpaid, and its
  \<^verbatim>\<open>toDate\<close> minus its \<^verbatim>\<open>fromDate\<close> is 4 weeks and one millisecond.
\<close>

theorem createBooking_span_includes_clock_advance:
  "fst (createBooking env0 ''u1'' ''s1'' 2 5000 ''box'' 4 ''Ann'' world0) = Inr (''order_abc'', ''bk4'') \<and>
   map_option (\<lambda>b. (paid b, fromDate b, toDate b, dateDiff (toDate b) (fromDate b)))
     (bookings (snd (createBooking env0 ''u1'' ''s1'' 2 5000 ''box'' 4 ''Ann'' world0)) ''bk4'')
     = Some (False, Date 1700000000002, Date 1702419200003, Some (4 * 7 * 24 * 60 * 60 * 1000 + 1))"
  by (simp add: eval_defs)

text \<open>
  When the storage document does not exist, no booking is persisted, and the call fails
  with the rejection of the gateway or with a \<^verbatim>\<open>TypeError\<close>.
\<close>

lemma createBooking_missing_storage:
  "storages w sid = None \<Longrightarrow>
   bookings (snd (createBooking e uid sid bxs amt stype duration uname w)) = bookings w \<and>
   (fst (createBooking e uid sid bxs amt stype duration uname w) = Inl TypeError \<or>
    (\<exists>reason. fst (createBooking e uid sid bxs amt stype duration uname w) = Inl (GatewayError reason)))"
  by (auto simp add: create_defs Let_def split: sum.splits prod.splits)

text \<open>
  Claim C8, at a concrete input. No storage document has the id \<^verbatim>\<open>"nosuch"\<close> and the
  gateway accepts: \<^verbatim>\<open>createBooking\<close> first has the gateway create an order and then fails
  with a \<^verbatim>\<open>TypeError\<close>, not with an object of status 402; no booking is persisted.
\<close>

theorem createBooking_missing_storage_type_error:
  "storages world0 ''nosuch'' = None \<and>
   createBooking env0 ''u1'' ''nosuch'' 2 5000 ''box'' 4 ''Ann'' world0 =
     (Inl TypeError,
      world0\<lparr>gatewayRequests :=
               [\<lparr>orderParams.amount = ''500000'', currency = ''INR'', receipt = ''tok0''\<rparr>],
             effects := 2\<rparr>)"
  by (simp add: eval_defs)

text \<open>
  Claim C10. In the booking that a successful \<^verbatim>\<open>createBooking\<close> persists, \<^verbatim>\<open>image\<close> is
  the empty string when the storage document has no \<^verbatim>\<open>images\<close> field, and the first
  element of \<^verbatim>\<open>images\<close> when it has one (\<^verbatim>\<open>undefined\<close> for an empty array, which has no
  first element).
\<close>

theorem createBooking_image:
  "fst (createBooking e uid sid bxs amt stype duration uname w) = Inr (oid, newId) \<Longrightarrow>
   storages w sid = Some s \<Longrightarrow>
   \<exists>b. bookings (snd (createBooking e uid sid bxs amt stype duration uname w)) newId = Some b \<and>
       (images s = None \<longrightarrow> image' b = Str []) \<and>
       (\<forall>x xs. images s = Some (x # xs) \<longrightarrow> image' b = Str x) \<and>
       (images s = Some [] \<longrightarrow> image' b = Undefined)"
proof -
  assume a: "fst (createBooking e uid sid bxs amt stype duration uname w) = Inr (oid, newId)"
    and s: "storages w sid = Some s"
  have "createBooking e uid sid bxs amt stype duration uname w =
          (Inr (oid, newId), snd (createBooking e uid sid bxs amt stype duration uname w))"
    using a by (simp add: prod_eq_iff)
  from createBooking_success [OF this] s show ?thesis by (auto simp add: first_def)
qed

theorem createBooking_image_witness:
  "fst (createBooking env0 ''u1'' ''s1'' 2 5000 ''box'' 4 ''Ann'' world0) = Inr (''order_abc'', ''bk4'') \<and>
   storages world0 ''s1'' = Some depot \<and> images depot = Some (''a.png'' # [''b.png'']) \<and>
   (\<exists>b. bookings (snd (createBooking env0 ''u1'' ''s1'' 2 5000 ''box'' 4 ''Ann'' world0)) ''bk4'' = Some b \<and>
        image' b = Str ''a.png'') \<and>
   fst (createBooking env0 ''u1'' ''s2'' 2 5000 ''box'' 4 ''Ann'' world0) = Inr (''order_abc'', ''bk4'') \<and>
   storages world0 ''s2'' = Some shed \<and> images shed = None \<and>
   (\<exists>b. bookings (snd (createBooking env0 ''u1'' ''s2'' 2 5000 ''box'' 4 ''Ann'' world0)) ''bk4'' = Some b \<and>
        image' b = Str []) \<and>
   fst (createBooking env2 ''u1'' ''s3'' 2 5000 ''box'' 4 ''Ann'' world0) = Inr (''order_abc'', ''bk4'') \<and>
   storages world0 ''s3'' = Some yard \<and> images yard = Some [] \<and>
   (\<exists>b. bookings (snd (createBooking env2 ''u1'' ''s3'' 2 5000 ''box'' 4 ''Ann'' world0)) ''bk4'' = Some b \<and>
        image' b = Undefined)"
proof -
  have h1: "fst (createBooking env0 ''u1'' ''s1'' 2 5000 ''box'' 4 ''Ann'' world0)
              = Inr (''order_abc'', ''bk4'')"
    by (simp add: eval_defs)
  have s1: "storages world0 ''s1'' = Some depot"
    by (simp add: example_defs)
  have i1: "images depot = Some (''a.png'' # [''b.png''])"
    by (simp add: example_defs)
  have h2: "fst (createBooking env0 ''u1'' ''s2'' 2 5000 ''box'' 4 ''Ann'' world0)
              = Inr (''order_abc'', ''bk4'')"
    by (simp add: eval_defs)
  have s2: "storages world0 ''s2'' = Some shed"
    by (simp add: example_defs)
  have i2: "images shed = None"
    by (simp add: example_defs)
  have h3: "fst (createBooking env2 ''u1'' ''s3'' 2 5000 ''box'' 4 ''Ann'' world0)
              = Inr (''order_abc'', ''bk4'')"
    by (simp add: eval_defs)
  have s3: "storages world0 ''s3'' = Some yard"
    by (simp add: example_defs)
  have i3: "images yard = Some []"
    by (simp add: example_defs)
  show ?thesis
    using h1 s1 i1 h2 s2 i2 h3 s3 i3
      createBooking_image [OF h1 s1] createBooking_image [OF h2 s2] createBooking_image [OF h3 s3]
    by auto
qed

end
